theory Spec2Isabelle
  imports Complex_Main "HOL-Library.List_Lexorder" "HOL-Library.Log_Nat"
begin

section \<open>Strings\<close>

text \<open>
  A Python \<open>str\<close> is a sequence of Unicode code points, compared code point by code
  point. It is modelled as a list of natural numbers (the code points); \<open>str\<close> turns an
  ASCII literal into such a list.
\<close>

type_synonym ustring = "nat list"

definition str :: "string \<Rightarrow> ustring" where
  "str s = map of_char s"

text \<open>The code points for which Python's \<open>str.isspace\<close> holds; \<open>str.split()\<close> splits at them.\<close>

definition isspace :: "nat \<Rightarrow> bool" where
  "isspace c \<longleftrightarrow>
     (9 \<le> c \<and> c \<le> 13) \<or> (28 \<le> c \<and> c \<le> 32) \<or> c = 133 \<or> c = 160 \<or> c = 5760 \<or>
     (8192 \<le> c \<and> c \<le> 8202) \<or> c = 8232 \<or> c = 8233 \<or> c = 8239 \<or> c = 8287 \<or> c = 12288"

text \<open>\<open>text.split()\<close>: the maximal runs of non-whitespace, in order.\<close>

fun split_from :: "ustring \<Rightarrow> ustring \<Rightarrow> ustring list" where
  "split_from w [] = (if w = [] then [] else [w])"
| "split_from w (c # cs) =
     (if isspace c then (if w = [] then split_from [] cs else w # split_from [] cs)
      else split_from (w @ [c]) cs)"

definition str_split :: "ustring \<Rightarrow> ustring list" where
  "str_split text = split_from [] text"

text \<open>\<open>line.split(sep)\<close> for a one-character separator: every separator cuts, empty pieces stay.\<close>

fun split_on :: "nat \<Rightarrow> ustring \<Rightarrow> ustring list" where
  "split_on sep [] = [[]]"
| "split_on sep (c # cs) =
     (if c = sep then [] # split_on sep cs
      else (case split_on sep cs of [] \<Rightarrow> [[c]] | p # ps \<Rightarrow> (c # p) # ps))"

text \<open>\<open>sep.join(parts)\<close>.\<close>

fun join :: "ustring \<Rightarrow> ustring list \<Rightarrow> ustring" where
  "join sep [] = []"
| "join sep [w] = w"
| "join sep (w # v # ws) = w @ sep @ join sep (v # ws)"

definition space :: ustring where
  "space = [32]"

section \<open>Image processor: text wrapping\<close>

text \<open>
  The imaging library is not part of the repository. A bounding box is the 4-tuple
  \<open>(left, top, right, bottom)\<close> that \<open>draw.textbbox((0, 0), text, font=font)\<close> returns;
  the function computing it is a parameter of the model.
\<close>

type_synonym bbox = "int \<times> int \<times> int \<times> int"

definition bbox_width :: "bbox \<Rightarrow> int" where
  "bbox_width b = (case b of (x0, y0, x1, y1) \<Rightarrow> x1 - x0)"

definition bbox_height :: "bbox \<Rightarrow> int" where
  "bbox_height b = (case b of (x0, y0, x1, y1) \<Rightarrow> y1 - y0)"

text \<open>The \<open>for word in words\<close> loop of \<open>wrap_text\<close>, on the pair \<open>(lines, current_line)\<close>.\<close>

fun wrap_loop :: "('f \<Rightarrow> ustring \<Rightarrow> bbox) \<Rightarrow> 'f \<Rightarrow> int \<Rightarrow> ustring list \<Rightarrow> ustring list \<Rightarrow>
    ustring list \<Rightarrow> ustring list \<times> ustring list" where
  "wrap_loop textbbox font max_width lines current_line [] = (lines, current_line)"
| "wrap_loop textbbox font max_width lines current_line (word # words) =
     (let test_line = join space (current_line @ [word]);
          width = bbox_width (textbbox font test_line)
      in if width \<le> max_width
         then wrap_loop textbbox font max_width lines (current_line @ [word]) words
         else wrap_loop textbbox font max_width
                (if current_line \<noteq> [] then lines @ [join space current_line] else lines)
                [word] words)"

definition wrap_text :: "('f \<Rightarrow> ustring \<Rightarrow> bbox) \<Rightarrow> ustring \<Rightarrow> 'f \<Rightarrow> int \<Rightarrow> ustring list" where
  "wrap_text textbbox text font max_width =
     (case wrap_loop textbbox font max_width [] [] (str_split text) of
        (lines, current_line) \<Rightarrow>
          if current_line \<noteq> [] then lines @ [join space current_line] else lines)"




text \<open>
  A font to run the model on: at size \<open>s\<close> every glyph is \<open>s\<close> pixels wide and a line
  of text is \<open>s\<close> pixels high.
\<close>

definition fixed_pitch :: "int \<Rightarrow> ustring \<Rightarrow> bbox" where
  "fixed_pitch s t = (0, 0, s * int (length t), s)"

section \<open>Python numbers\<close>

text \<open>
  A Python \<open>int\<close> is unbounded: type \<open>int\<close>. A Python \<open>float\<close> is an IEEE 754 double;
  it is modelled by the rational number it stands for, and every float operation rounds
  its exact result to the nearest double, ties to the even significand (\<open>flt\<close>). The
  exponent range is not bounded in the model: the magnitudes of the program (pixel counts
  and their ratios) are far inside the double range. A literal such as \<open>0.05\<close> is the
  double nearest to it, \<open>flt (5 / 100)\<close>.
\<close>

text \<open>The exponent \<open>e\<close> with \<open>2 ^ e \<le> x < 2 ^ (e + 1)\<close>, for \<open>x > 0\<close>.\<close>

definition ilog2 :: "rat \<Rightarrow> int" where
  "ilog2 x =
     (if 1 \<le> x then bitlen \<lfloor>x\<rfloor> - 1
      else (let k = bitlen \<lfloor>1 / x\<rfloor> in if 1 \<le> x * 2 ^ nat (k - 1) then 1 - k else - k))"

definition round_half_even :: "rat \<Rightarrow> int" where
  "round_half_even s =
     (let f = \<lfloor>s\<rfloor>; d = s - of_int f
      in if d < 1 / 2 then f else if 1 / 2 < d then f + 1 else if even f then f else f + 1)"

definition flt :: "rat \<Rightarrow> rat" where
  "flt x =
     (if x = 0 then 0
      else (let e = ilog2 \<bar>x\<bar>
            in sgn x * of_int (round_half_even (\<bar>x\<bar> * 2 powi (52 - e))) * 2 powi (e - 52)))"

text \<open>\<open>float(n)\<close>, \<open>x * y\<close>, \<open>x / y\<close> on floats, and \<open>int(x)\<close>, which truncates towards zero.\<close>

definition float_of_int :: "int \<Rightarrow> rat" where
  "float_of_int n = flt (of_int n)"

definition fmul :: "rat \<Rightarrow> rat \<Rightarrow> rat" where
  "fmul x y = flt (x * y)"

definition fdiv :: "rat \<Rightarrow> rat \<Rightarrow> rat" where
  "fdiv x y = flt (x / y)"

definition py_int :: "rat \<Rightarrow> int" where
  "py_int x = (if 0 \<le> x then \<lfloor>x\<rfloor> else \<lceil>x\<rceil>)"

text \<open>\<open>int(n * c)\<close> for an \<open>int\<close> \<open>n\<close> and a float \<open>c\<close>: \<open>n\<close> is converted to a float first.\<close>

definition int_scaled :: "int \<Rightarrow> rat \<Rightarrow> int" where
  "int_scaled n c = py_int (fmul (float_of_int n) c)"


section \<open>Image processor: fonts and text fitting\<close>

text \<open>
  The imaging library and the fonts installed on the machine, as \<open>ImageProcessor\<close> uses
  them: \<open>truetype path s\<close> is \<open>ImageFont.truetype(path, s)\<close> (\<open>None\<close> when it raises
  \<open>OSError\<close>), \<open>load_default\<close> is \<open>ImageFont.load_default()\<close> and \<open>textbbox\<close> measures a text
  in a font. The type \<open>'f\<close> of font objects is left open.
\<close>

record 'f fonts =
  truetype :: "string \<Rightarrow> int \<Rightarrow> 'f option"
  load_default :: "'f"
  textbbox :: "'f \<Rightarrow> ustring \<Rightarrow> bbox"

definition FONT_PATHS :: "string list" where
  "FONT_PATHS =
     [''/System/Library/Fonts/SFNSDisplay-Bold.otf'',
      ''/System/Library/Fonts/Helvetica.ttc'',
      ''/usr/share/fonts/truetype/dejavu/DejaVuSans-Bold.ttf'',
      ''/usr/share/fonts/truetype/roboto/Roboto-Bold.ttf'',
      ''Arial Bold'',
      ''Helvetica Bold'']"


text \<open>The state of an \<open>ImageProcessor\<close> is its \<open>font_cache\<close>, a dict from size to font.\<close>

type_synonym 'f font_cache = "int \<rightharpoonup> 'f"

text \<open>The \<open>for font_path in FONT_PATHS\<close> loop of \<open>get_font\<close>: the first path that loads.\<close>

fun first_font :: "(string \<Rightarrow> int \<Rightarrow> 'f option) \<Rightarrow> string list \<Rightarrow> int \<Rightarrow> 'f option" where
  "first_font tt [] font_size = None"
| "first_font tt (font_path # paths) font_size =
     (case tt font_path font_size of Some font \<Rightarrow> Some font | None \<Rightarrow> first_font tt paths font_size)"

definition get_font :: "'f fonts \<Rightarrow> 'f font_cache \<Rightarrow> int \<Rightarrow> 'f \<times> 'f font_cache" where
  "get_font env font_cache font_size =
     (case font_cache font_size of
        Some font \<Rightarrow> (font, font_cache)
      | None \<Rightarrow>
          (case first_font (truetype env) FONT_PATHS font_size of
             Some font \<Rightarrow> (font, font_cache(font_size \<mapsto> font))
           | None \<Rightarrow> (load_default env, font_cache(font_size \<mapsto> load_default env))))"

text \<open>
  The two \<open>while size > min_size\<close> loops of \<open>calculate_optimal_font_size\<close> have the same
  body, for the title and for the subtitle: measure at the current size, stop when the
  text fits, else take 2 off.
\<close>

function shrink_to_fit :: "'f fonts \<Rightarrow> ustring \<Rightarrow> int \<Rightarrow> int \<Rightarrow> 'f font_cache \<Rightarrow> int \<Rightarrow>
    int \<times> 'f font_cache" where
  "shrink_to_fit env caption max_text_width min_size font_cache font_size =
     (if font_size > min_size
      then (case get_font env font_cache font_size of
              (font, font_cache') \<Rightarrow>
                if bbox_width (textbbox env font caption) \<le> max_text_width then (font_size, font_cache')
                else shrink_to_fit env caption max_text_width min_size font_cache' (font_size - 2))
      else (font_size, font_cache))"
  by pat_completeness auto
termination
  by (relation "measure (\<lambda>(env, caption, max_text_width, min_size, font_cache, font_size). nat (font_size - min_size))")
    auto

definition calculate_optimal_font_size :: "'f fonts \<Rightarrow> 'f font_cache \<Rightarrow> ustring \<Rightarrow> ustring \<Rightarrow>
    int \<times> int \<Rightarrow> (int \<times> int \<times> int) \<times> 'f font_cache" where
  "calculate_optimal_font_size env font_cache title subtitle target_size =
     (case target_size of (canvas_width, canvas_height) \<Rightarrow>
      let max_text_width = int_scaled canvas_width (flt (90 / 100));
          min_title_size = int_scaled canvas_height (flt (25 / 1000));
          min_subtitle_size = int_scaled canvas_height (flt (2 / 100))
      in case shrink_to_fit env title max_text_width min_title_size font_cache
                (int_scaled canvas_height (flt (5 / 100))) of
           (title_size, cache1) \<Rightarrow>
         case shrink_to_fit env subtitle max_text_width min_subtitle_size cache1
                (int_scaled canvas_height (flt (3 / 100))) of
           (subtitle_size, cache2) \<Rightarrow>
         case get_font env cache2 title_size of (title_font, cache3) \<Rightarrow>
         case get_font env cache3 subtitle_size of (subtitle_font, cache4) \<Rightarrow>
         let title_height = bbox_height (textbbox env title_font title);
             subtitle_height = bbox_height (textbbox env subtitle_font subtitle);
             line_spacing = int_scaled title_height (flt (3 / 10));
             total_height = title_height + line_spacing + subtitle_height
         in ((title_size, subtitle_size, total_height), cache4))"

section \<open>Image processor: compositing\<close>

datatype error = KeyError | ZeroDivisionError | FileNotFoundError | SystemExit



text \<open>
  Fonts to run the model on. A font object is its size; only the DejaVu path loads.
  \<open>fixed_pitch_lines\<close> also breaks the text at line feeds, as the imaging library does for
  a text of several lines.
\<close>

definition fixed_pitch_lines :: "int \<Rightarrow> ustring \<Rightarrow> bbox" where
  "fixed_pitch_lines s t =
     (0, 0, s * int (foldr max (map length (split_on 10 t)) 0), s * int (length (split_on 10 t)))"

definition test_fonts :: "(int \<Rightarrow> ustring \<Rightarrow> bbox) \<Rightarrow> int fonts" where
  "test_fonts metric =
     \<lparr>truetype = (\<lambda>font_path font_size.
        if font_path = ''/usr/share/fonts/truetype/dejavu/DejaVuSans-Bold.ttf'' then Some font_size
        else None),
      load_default = 10,
      textbbox = metric\<rparr>"

text \<open>
  The font \<open>get_font\<close> loads for a size when the cache has none, and the caches an
  \<open>ImageProcessor\<close> can reach from the empty one of \<open>__init__\<close>: every cached font is the
  loaded one.
\<close>

definition loaded :: "'f fonts \<Rightarrow> int \<Rightarrow> 'f" where
  "loaded env font_size =
     (case first_font (truetype env) FONT_PATHS font_size of
        Some font \<Rightarrow> font
      | None \<Rightarrow> load_default env)"

definition coherent :: "'f fonts \<Rightarrow> 'f font_cache \<Rightarrow> bool" where
  "coherent env font_cache \<longleftrightarrow> (\<forall>s font. font_cache s = Some font \<longrightarrow> font = loaded env s)"

section \<open>Properties of text wrapping\<close>















lemma wrap_text_example:
  "wrap_text fixed_pitch (str ''hi  enormousword yo'') 10 50 =
     [str ''hi'', str ''enormousword'', str ''yo'']"
  by (simp add: wrap_text_def str_split_def str_def isspace_def fixed_pitch_def bbox_width_def
      space_def)


section \<open>Properties of the float model\<close>











lemma flt_pos_eq:
  "0 < x \<Longrightarrow>
   flt x = of_int (round_half_even (x * 2 powi (52 - ilog2 x))) * 2 powi (ilog2 x - 52)"
  by (simp add: flt_def Let_def)






lemma flt_zero: "flt 0 = 0"
  by (simp add: flt_def)















subsection \<open>Evaluating floats\<close>

text \<open>Rules that let the simplifier compute \<open>flt\<close> on numerals.\<close>

lemma bitlen_numeral:
  "bitlen 1 = 1"
  "bitlen (numeral Num.One) = 1"
  "bitlen (numeral (Num.Bit0 w)) = bitlen (numeral w) + 1"
  "bitlen (numeral (Num.Bit1 w)) = bitlen (numeral w) + 1"
proof -
  show "bitlen 1 = 1" by (subst compute_bitlen) simp
  then show "bitlen (numeral Num.One) = 1" by simp
  show "bitlen (numeral (Num.Bit0 w)) = bitlen (numeral w) + 1"
    by (subst compute_bitlen) simp
  show "bitlen (numeral (Num.Bit1 w)) = bitlen (numeral w) + 1"
    by (subst compute_bitlen) simp
qed

lemma floor_rat_numeral:
  "\<lfloor>(numeral a :: rat) / numeral b\<rfloor> = numeral a div numeral b"
  "\<lfloor>(1 :: rat) / numeral b\<rfloor> = 1 div numeral b"
  using floor_divide_of_int_eq [of "numeral a" "numeral b", where ?'a = rat]
    floor_divide_of_int_eq [of 1 "numeral b", where ?'a = rat]
  by simp_all

text \<open>
  The rules are conditional on the sign of the argument, which the simplifier can only
  decide for a numeral: a float expression over a variable is left alone.
\<close>

lemma ilog2_eval:
  "1 \<le> x \<Longrightarrow> ilog2 x = bitlen \<lfloor>x\<rfloor> - 1"
  "0 < x \<Longrightarrow> x < 1 \<Longrightarrow>
   ilog2 x = (if 1 \<le> x * 2 ^ nat (bitlen \<lfloor>1 / x\<rfloor> - 1) then 1 - bitlen \<lfloor>1 / x\<rfloor>
              else - bitlen \<lfloor>1 / x\<rfloor>)"
  by (simp_all add: ilog2_def Let_def)

lemma round_half_even_eval:
  "0 \<le> s \<Longrightarrow> round_half_even s =
     (if s - of_int \<lfloor>s\<rfloor> < 1 / 2 then \<lfloor>s\<rfloor>
      else if 1 / 2 < s - of_int \<lfloor>s\<rfloor> then \<lfloor>s\<rfloor> + 1
      else if even \<lfloor>s\<rfloor> then \<lfloor>s\<rfloor> else \<lfloor>s\<rfloor> + 1)"
  by (simp add: round_half_even_def Let_def)

lemma py_int_eval: "0 \<le> x \<Longrightarrow> py_int x = \<lfloor>x\<rfloor>"
  by (simp add: py_int_def)

lemmas float_eval = int_scaled_def fmul_def fdiv_def float_of_int_def flt_pos_eq flt_zero
  ilog2_eval round_half_even_eval py_int_eval bitlen_numeral floor_rat_numeral


text \<open>The model agrees with Python on the classic cases: \<open>int(0.29 * 100) == 28\<close>.\<close>

lemma float_examples:
  "py_int (fmul (flt (29 / 100)) 100) = 28"
  "flt (5 / 100) = 3602879701896397 / 72057594037927936"
  "fdiv 1 3 = 6004799503160661 / 18014398509481984"
  by (simp_all add: float_eval)





section \<open>Properties of the text fitter\<close>

lemma coherent_empty: "coherent env Map.empty"
  by (simp add: coherent_def)

lemma get_font_coherent:
  assumes "coherent env c"
  shows "fst (get_font env c s) = loaded env s"
    and "coherent env (snd (get_font env c s))"
    and "c \<subseteq>\<^sub>m snd (get_font env c s)"
proof -
  show "fst (get_font env c s) = loaded env s"
  proof (cases "c s")
    case None
    then show ?thesis by (simp add: get_font_def loaded_def split: option.splits)
  next
    case (Some font)
    with assms have "font = loaded env s" by (simp add: coherent_def)
    with Some show ?thesis by (simp add: get_font_def)
  qed
  show "coherent env (snd (get_font env c s))"
  proof (cases "c s")
    case None
    then have "snd (get_font env c s) = c(s \<mapsto> loaded env s)"
      by (simp add: get_font_def loaded_def split: option.splits)
    with assms show ?thesis by (simp add: coherent_def)
  next
    case (Some font)
    with assms show ?thesis by (simp add: get_font_def)
  qed
  show "c \<subseteq>\<^sub>m snd (get_font env c s)"
    by (cases "c s") (auto simp: get_font_def map_le_def split: option.splits)
qed



lemma shrink_to_fit_coherent:
  "coherent env c \<Longrightarrow>
   coherent env (snd (shrink_to_fit env cap mw mn c s)) \<and> c \<subseteq>\<^sub>m snd (shrink_to_fit env cap mw mn c s)"
proof (induction env cap mw mn c s rule: shrink_to_fit.induct)
  case (1 env cap mw mn c s)
  show ?case
  proof (cases "s > mn")
    case False
    with "1.prems" show ?thesis by simp
  next
    case True
    obtain font c' where g: "get_font env c s = (font, c')" by (cases "get_font env c s")
    from get_font_coherent(2,3) [OF "1.prems", of s] g have c': "coherent env c'" "c \<subseteq>\<^sub>m c'"
      by simp_all
    show ?thesis
    proof (cases "bbox_width (textbbox env font cap) \<le> mw")
      case fits: True
      with True g c' show ?thesis by simp
    next
      case nofit: False
      from "1.IH" [OF True g [symmetric] nofit c'(1)]
      have "coherent env (snd (shrink_to_fit env cap mw mn c' (s - 2)))"
        and "c' \<subseteq>\<^sub>m snd (shrink_to_fit env cap mw mn c' (s - 2))" by simp_all
      with True g nofit c'(2) show ?thesis by (auto intro: map_le_trans)
    qed
  qed
qed

lemma shrink_to_fit_cache_free:
  "coherent env c \<Longrightarrow> coherent env d \<Longrightarrow>
   fst (shrink_to_fit env cap mw mn c s) = fst (shrink_to_fit env cap mw mn d s)"
proof (induction env cap mw mn c s arbitrary: d rule: shrink_to_fit.induct)
  case (1 env cap mw mn c s)
  show ?case
  proof (cases "s > mn")
    case False
    then show ?thesis by simp
  next
    case True
    obtain font c' where g: "get_font env c s = (font, c')" by (cases "get_font env c s")
    obtain font2 d' where h: "get_font env d s = (font2, d')" by (cases "get_font env d s")
    from get_font_coherent(1,2) [OF "1.prems"(1), of s] g have c': "font = loaded env s" "coherent env c'"
      by simp_all
    from get_font_coherent(1,2) [OF "1.prems"(2), of s] h have d': "font2 = loaded env s" "coherent env d'"
      by simp_all
    show ?thesis
    proof (cases "bbox_width (textbbox env font cap) \<le> mw")
      case fits: True
      with True g h c' d' show ?thesis by simp
    next
      case nofit: False
      from "1.IH" [OF True g [symmetric] nofit c'(2) d'(2)]
      have "fst (shrink_to_fit env cap mw mn c' (s - 2)) = fst (shrink_to_fit env cap mw mn d' (s - 2))" .
      with True g h nofit c'(1) d'(1) show ?thesis by simp
    qed
  qed
qed

lemma calculate_optimal_font_size_result:
  fixes env :: "'f fonts" and w h :: int and title subtitle :: ustring
  assumes coh: "coherent env c"
  defines "mw \<equiv> int_scaled w (flt (90 / 100))"
  defines "ts \<equiv> fst (shrink_to_fit env title (int_scaled w (flt (90 / 100)))
      (int_scaled h (flt (25 / 1000))) Map.empty (int_scaled h (flt (5 / 100))))"
  defines "ss \<equiv> fst (shrink_to_fit env subtitle (int_scaled w (flt (90 / 100)))
      (int_scaled h (flt (2 / 100))) Map.empty (int_scaled h (flt (3 / 100))))"
  defines "th \<equiv> bbox_height (textbbox env (loaded env ts) title)"
  defines "sh \<equiv> bbox_height (textbbox env (loaded env ss) subtitle)"
  shows "fst (calculate_optimal_font_size env c title subtitle (w, h)) =
      (ts, ss, th + int_scaled th (flt (3 / 10)) + sh)"
    and "coherent env (snd (calculate_optimal_font_size env c title subtitle (w, h)))"
    and "c \<subseteq>\<^sub>m snd (calculate_optimal_font_size env c title subtitle (w, h))"
proof -
  let ?mnt = "int_scaled h (flt (25 / 1000))" and ?mns = "int_scaled h (flt (2 / 100))"
  let ?t0 = "int_scaled h (flt (5 / 100))" and ?s0 = "int_scaled h (flt (3 / 100))"
  obtain ts' c1 where s1: "shrink_to_fit env title mw ?mnt c ?t0 = (ts', c1)"
    by (cases "shrink_to_fit env title mw ?mnt c ?t0")
  obtain ss' c2 where s2: "shrink_to_fit env subtitle mw ?mns c1 ?s0 = (ss', c2)"
    by (cases "shrink_to_fit env subtitle mw ?mns c1 ?s0")
  obtain tf c3 where g1: "get_font env c2 ts' = (tf, c3)" by (cases "get_font env c2 ts'")
  obtain sf c4 where g2: "get_font env c3 ss' = (sf, c4)" by (cases "get_font env c3 ss'")
  from shrink_to_fit_coherent [OF coh, of title mw ?mnt ?t0] s1
  have c1: "coherent env c1" "c \<subseteq>\<^sub>m c1" by simp_all
  from shrink_to_fit_coherent [OF c1(1), of subtitle mw ?mns ?s0] s2
  have c2: "coherent env c2" "c1 \<subseteq>\<^sub>m c2" by simp_all
  from get_font_coherent [OF c2(1), of ts'] g1
  have c3: "tf = loaded env ts'" "coherent env c3" "c2 \<subseteq>\<^sub>m c3" by simp_all
  from get_font_coherent [OF c3(2), of ss'] g2
  have c4: "sf = loaded env ss'" "coherent env c4" "c3 \<subseteq>\<^sub>m c4" by simp_all
  have ts: "ts' = ts"
    using shrink_to_fit_cache_free [OF coh coherent_empty, of title mw ?mnt ?t0] s1
    by (simp add: ts_def mw_def)
  have ss: "ss' = ss"
    using shrink_to_fit_cache_free [OF c1(1) coherent_empty, of subtitle mw ?mns ?s0] s2
    by (simp add: ss_def mw_def)
  have run: "calculate_optimal_font_size env c title subtitle (w, h) =
      ((ts', ss', bbox_height (textbbox env tf title)
          + int_scaled (bbox_height (textbbox env tf title)) (flt (3 / 10))
          + bbox_height (textbbox env sf subtitle)), c4)"
    using s1 s2 g1 g2 by (simp add: calculate_optimal_font_size_def Let_def mw_def)
  show "fst (calculate_optimal_font_size env c title subtitle (w, h)) =
      (ts, ss, th + int_scaled th (flt (3 / 10)) + sh)"
    by (simp add: run c3(1) c4(1) ts ss th_def sh_def)
  show "coherent env (snd (calculate_optimal_font_size env c title subtitle (w, h)))"
    by (simp add: run c4(2))
  show "c \<subseteq>\<^sub>m snd (calculate_optimal_font_size env c title subtitle (w, h))"
    using c1(2) c2(2) c3(3) c4(3) by (simp add: run) (blast intro: map_le_trans)
qed

subsection \<open>Runs of the model\<close>

text \<open>
  The runs below are on the 1284 x 2778 canvas (the 6.5 inch iPhone of \<open>SIZES\<close>) with the
  test fonts. The float expressions of the canvas are evaluated once, here.
\<close>

lemma test_fonts_loaded: "loaded (test_fonts metric) s = s"
  by (simp add: loaded_def test_fonts_def FONT_PATHS_def)

lemma get_font_test:
  "get_font (test_fonts metric) c s =
     (case c s of Some font \<Rightarrow> (font, c) | None \<Rightarrow> (s, c(s \<mapsto> s)))"
  by (cases "c s") (simp_all add: get_font_def test_fonts_def FONT_PATHS_def)

lemma textbbox_test: "textbbox (test_fonts metric) = metric"
  by (simp add: test_fonts_def)

lemmas run_simps = calculate_optimal_font_size_def float_eval Let_def get_font_test textbbox_test
  fixed_pitch_def fixed_pitch_lines_def bbox_width_def bbox_height_def str_def


lemma cache_example:
  "snd (calculate_optimal_font_size (test_fonts fixed_pitch) Map.empty (str ''Hi'') (str ''ok'')
     (1284, 2778)) 138 = Some 138"
  by (simp add: run_simps)

text \<open>
  C4 (as amended). \<open>calculate_optimal_font_size\<close> is deterministic: on the same title,
  subtitle and canvas it returns the same triple from every state an \<open>ImageProcessor\<close>
  can be in (every coherent font cache). It is not free of side effects: it stores the
  fonts it loads in the processor's cache; the cache only grows and stays coherent.
\<close>

theorem calculate_optimal_font_size_deterministic:
  assumes "coherent env cache1" and "coherent env cache2"
  shows "fst (calculate_optimal_font_size env cache1 title subtitle target_size) =
         fst (calculate_optimal_font_size env cache2 title subtitle target_size) \<and>
         coherent env (snd (calculate_optimal_font_size env cache1 title subtitle target_size)) \<and>
         cache1 \<subseteq>\<^sub>m snd (calculate_optimal_font_size env cache1 title subtitle target_size)"
proof -
  obtain w h where sz: "target_size = (w, h)" by (cases target_size)
  show ?thesis
    unfolding sz
    using calculate_optimal_font_size_result
        [OF assms(1), where w = w and h = h and title = title and subtitle = subtitle]
      calculate_optimal_font_size_result(1)
        [OF assms(2), where w = w and h = h and title = title and subtitle = subtitle]
    by simp
qed

theorem calculate_optimal_font_size_deterministic_witness:
  "coherent (test_fonts fixed_pitch) Map.empty \<and>
   coherent (test_fonts fixed_pitch) [138 \<mapsto> 138] \<and>
   fst (calculate_optimal_font_size (test_fonts fixed_pitch) Map.empty (str ''Hi'') (str ''ok'')
     (1284, 2778)) =
   fst (calculate_optimal_font_size (test_fonts fixed_pitch) [138 \<mapsto> 138] (str ''Hi'') (str ''ok'')
     (1284, 2778))"
proof -
  have 1: "coherent (test_fonts fixed_pitch) Map.empty" by (rule coherent_empty)
  have 2: "coherent (test_fonts fixed_pitch) [138 \<mapsto> 138]"
    by (simp add: coherent_def test_fonts_loaded)
  from calculate_optimal_font_size_deterministic [OF 1 2] 1 2 show ?thesis by blast
qed

theorem calculate_optimal_font_size_fills_cache:
  "snd (calculate_optimal_font_size (test_fonts fixed_pitch) Map.empty (str ''Hi'') (str ''ok'')
     (1284, 2778)) \<noteq> Map.empty"
proof
  assume "snd (calculate_optimal_font_size (test_fonts fixed_pitch) Map.empty (str ''Hi'')
     (str ''ok'') (1284, 2778)) = Map.empty"
  then have "snd (calculate_optimal_font_size (test_fonts fixed_pitch) Map.empty (str ''Hi'')
     (str ''ok'') (1284, 2778)) 138 = None" by simp
  with cache_example show False by simp
qed






text \<open>
  The shrink loops take 2 off while the size is above the floor, so a size one above the
  floor goes one below it: on this canvas the title starts at 138 with floor 69, and a
  title that never fits ends at 68.
\<close>

lemma calculate_optimal_font_size_below_floor:
  "fst (calculate_optimal_font_size (test_fonts fixed_pitch) Map.empty (replicate 100 65)
     (str ''ok'') (1284, 2778)) = (68, 83, 171) \<and>
   int_scaled 2778 (flt (25 / 1000)) = 69"
  by (simp add: run_simps)

section \<open>Properties of the compositor\<close>






end
